theory Spec2Isabelle
  imports Main
begin

section \<open>Values of the configuration language\<close>

text \<open>
  The rule inspects values of the go-cty library. Only the shape of a value matters to
  the rule: whether it is null, whether its type is an object type, a primitive type
  (string, number, bool) or anything else. An object and a map carry their entries as an
  association list; the order of the list stands for the order in which a Go
  \<^verbatim>\<open>range\<close> loop happens to visit the entries.
\<close>

datatype primitive = StringVal string | NumberVal int | BoolVal bool

datatype cty_value =
    NilVal
  | DynamicVal
  | PrimitiveVal primitive
  | ObjectVal "(string \<times> cty_value) list"
  | MapVal "(string \<times> cty_value) list"
  | ListVal "cty_value list"

type_synonym value_map = "(string \<times> cty_value) list"

fun IsNull :: "cty_value \<Rightarrow> bool" where
  "IsNull NilVal = True"
| "IsNull _ = False"

fun IsObjectType :: "cty_value \<Rightarrow> bool" where
  "IsObjectType (ObjectVal _) = True"
| "IsObjectType _ = False"

fun IsPrimitiveType :: "cty_value \<Rightarrow> bool" where
  "IsPrimitiveType (PrimitiveVal _) = True"
| "IsPrimitiveType _ = False"

datatype panic = Panic string

text \<open>
  \<^verbatim>\<open>Value.AsValueMap\<close> of go-cty: the entries of an object or a map, \<^verbatim>\<open>nil\<close> for
  an empty list or tuple, and a panic for every other value (a primitive is not a
  collection, an unknown value has no length, the keys of a list are not strings).
\<close>

fun AsValueMap :: "cty_value \<Rightarrow> panic + value_map" where
  "AsValueMap (ObjectVal entries) = Inr entries"
| "AsValueMap (MapVal entries) = Inr entries"
| "AsValueMap (ListVal []) = Inr []"
| "AsValueMap (ListVal (v # vs)) = Inl (Panic ''not a string'')"
| "AsValueMap (PrimitiveVal p) = Inl (Panic ''value is not a collection'')"
| "AsValueMap DynamicVal = Inl (Panic ''value is not known'')"
| "AsValueMap NilVal = Inl (Panic ''value is null'')"

section \<open>The rule configuration\<close>

record azurermResourceTagsRuleConfig =
  Tags :: "string list"
  Exclude :: "string list"

section \<open>Sets of tag names\<close>

text \<open>
  The two \<^verbatim>\<open>map[string]struct{}\<close> values of the rule are sets of strings. They are
  kept as lists without repetition, in insertion order.
\<close>

type_synonym tag_set = "string list"

definition set_add :: "string \<Rightarrow> tag_set \<Rightarrow> tag_set" where
  "set_add k m = (if k \<in> set m then m else m @ [k])"

definition set_delete :: "string \<Rightarrow> tag_set \<Rightarrow> tag_set" where
  "set_delete k m = removeAll k m"

section \<open>evaluateMissingTags\<close>

text \<open>
  The state is the pair of the two sets the function receives and mutates:
  \<^verbatim>\<open>missing\<close> and \<^verbatim>\<open>tagsAlreadyIncluded\<close>. The outer loop runs over the required
  tags, the inner loop over the entries of the map; an object entry is entered
  recursively with the same two sets. \<^verbatim>\<open>maps.Copy(nestedMissingTags, missing)\<close>
  copies a map into itself and changes nothing.
\<close>

type_synonym tag_state = "tag_set \<times> tag_set"

function evaluateMissingTags ::
    "value_map \<Rightarrow> azurermResourceTagsRuleConfig \<Rightarrow> tag_state \<Rightarrow> tag_state"
  and rangeTags ::
    "value_map \<Rightarrow> azurermResourceTagsRuleConfig \<Rightarrow> string list \<Rightarrow> tag_state \<Rightarrow> tag_state"
  and rangeMapValue ::
    "value_map \<Rightarrow> azurermResourceTagsRuleConfig \<Rightarrow> string \<Rightarrow> value_map \<Rightarrow> tag_state \<Rightarrow> tag_state"
where
  "evaluateMissingTags mapValue config s = rangeTags mapValue config (Tags config) s"
| "rangeTags mapValue config [] s = s"
| "rangeTags mapValue config (requiredTag # rest) s =
     rangeTags mapValue config rest (rangeMapValue mapValue config requiredTag mapValue s)"
| "rangeMapValue mapValue config requiredTag [] s = s"
| "rangeMapValue mapValue config requiredTag ((tagName, attributeValue) # rest) s =
     rangeMapValue mapValue config requiredTag rest
       (case attributeValue of
          ObjectVal nested \<Rightarrow> evaluateMissingTags nested config s
        | PrimitiveVal p \<Rightarrow>
            (if tagName = requiredTag
             then (set_delete tagName (fst s), set_add tagName (snd s))
             else if requiredTag \<notin> fst ` set mapValue \<and> requiredTag \<notin> set (snd s)
             then (set_add requiredTag (fst s), snd s)
             else s)
        | _ \<Rightarrow> s)"
  by pat_completeness auto
termination
  by (relation "measures [
        (\<lambda>x. case x of
           Inl (m, c, s) \<Rightarrow> size_list (size_prod (\<lambda>_. 0) size) m
         | Inr (Inl (m, c, ts, s)) \<Rightarrow> size_list (size_prod (\<lambda>_. 0) size) m
         | Inr (Inr (m, c, t, es, s)) \<Rightarrow> size_list (size_prod (\<lambda>_. 0) size) es),
        (\<lambda>x. case x of Inl _ \<Rightarrow> 2 | Inr (Inl _) \<Rightarrow> 1 | Inr (Inr _) \<Rightarrow> 0),
        (\<lambda>x. case x of Inr (Inl (m, c, ts, s)) \<Rightarrow> length ts | _ \<Rightarrow> 0)]") auto


section \<open>Issues and emitIssue\<close>

record hcl_pos =
  Line :: int
  Column :: int
  Byte :: int

record hcl_range =
  Filename :: string
  Start :: hcl_pos
  End :: hcl_pos

record issue =
  Rule :: string
  Message :: string
  IssueRange :: hcl_range

definition Name :: string where
  "Name = ''azurerm_resource_missing_tags''"

definition tagsAttributeName :: string where
  "tagsAttributeName = ''tags''"

text \<open>\<^verbatim>\<open>strings.Join\<close>.\<close>

fun Join :: "string list \<Rightarrow> string \<Rightarrow> string" where
  "Join [] sep = []"
| "Join [a] sep = a"
| "Join (a # b # rest) sep = a @ sep @ Join (b # rest) sep"

definition missingTagsMessage :: "string list \<Rightarrow> string" where
  "missingTagsMessage wanted =
     ''The resource is missing the following tags: '' @ Join wanted '', '' @ ''.''"

text \<open>
  \<^verbatim>\<open>runner.EmitIssue\<close> appends to the issues the runner has collected; the list of
  issues is the state \<^verbatim>\<open>emitIssue\<close> works on. The names of \<^verbatim>\<open>missing\<close> are
  joined in the order of the list, one of the orders the Go loop over the map may take.
\<close>

definition emitIssue ::
    "issue list \<Rightarrow> cty_value \<Rightarrow> azurermResourceTagsRuleConfig \<Rightarrow> hcl_range \<Rightarrow> panic + issue list"
where
  "emitIssue issues tags config location =
     (if IsNull tags
      then Inr (issues @
             [\<lparr>Rule = Name, Message = missingTagsMessage (Tags config), IssueRange = location\<rparr>])
      else case AsValueMap tags of
             Inl p \<Rightarrow> Inl p
           | Inr mapValue \<Rightarrow>
               (let missing = fst (evaluateMissingTags mapValue config ([], []))
                in if length missing > 0
                   then Inr (issues @
                          [\<lparr>Rule = Name, Message = missingTagsMessage missing,
                            IssueRange = location\<rparr>])
                   else Inr issues))"


fun stringInSlice :: "string \<Rightarrow> string list \<Rightarrow> bool" where
  "stringInSlice a [] = False"
| "stringInSlice a (b # list) = (if b = a then True else stringInSlice a list)"

section \<open>Check\<close>

text \<open>
  The runner is the interface the rule is given. An expression carries what
  \<^verbatim>\<open>Expr.Value\<close> yields under the empty evaluation context and its source range;
  \<^verbatim>\<open>EvaluateExpr\<close> takes the expression and the current content of the target and
  yields the error it returns together with the content of the target afterwards.
  \<^verbatim>\<open>Skipped\<close> tells which errors \<^verbatim>\<open>EnsureNoError\<close> turns into \<^verbatim>\<open>nil\<close>.
\<close>

datatype error = Error string

record expression =
  ExprValue :: cty_value
  ExprRange :: hcl_range

record attribute =
  Expr :: expression

record block =
  Labels :: "string list"
  Attributes :: "string \<rightharpoonup> attribute"
  DefRange :: hcl_range

record runner =
  DecodeRuleConfig :: "string \<Rightarrow> error + azurermResourceTagsRuleConfig"
  GetResourceContent :: "string \<Rightarrow> error + block list"
  EvaluateExpr :: "expression \<Rightarrow> cty_value \<Rightarrow> error option \<times> cty_value"
  Skipped :: "error \<Rightarrow> bool"

type_synonym check_result = "panic + (error option \<times> issue list)"

definition EnsureNoError ::
    "runner \<Rightarrow> error option \<Rightarrow> (issue list \<Rightarrow> check_result) \<Rightarrow> issue list \<Rightarrow> check_result"
where
  "EnsureNoError r err proc issues =
     (case err of
        None \<Rightarrow> proc issues
      | Some e \<Rightarrow> if Skipped r e then Inr (None, issues) else Inr (Some e, issues))"

text \<open>
  The loop over the blocks of one resource type. \<^verbatim>\<open>err\<close> is the variable of the
  enclosing loop body; the result of \<^verbatim>\<open>EvaluateExpr\<close> is not assigned to it. A result
  \<open>Inr (Some e, issues)\<close> is a return of \<open>e\<close> out of \<^verbatim>\<open>Check\<close>, \<open>Inr (None, issues)\<close>
  the end of the loop.
\<close>

fun rangeBlocks ::
    "runner \<Rightarrow> azurermResourceTagsRuleConfig \<Rightarrow> error option \<Rightarrow> block list \<Rightarrow> issue list
       \<Rightarrow> check_result"
where
  "rangeBlocks r config err [] issues = Inr (None, issues)"
| "rangeBlocks r config err (resource # rest) issues =
     (case Attributes resource tagsAttributeName of
        Some attribute \<Rightarrow>
          (let value = ExprValue (Expr attribute);
               value = snd (EvaluateExpr r (Expr attribute) value)
           in case EnsureNoError r err
                     (\<lambda>issues. case emitIssue issues value config (ExprRange (Expr attribute)) of
                                  Inl p \<Rightarrow> Inl p
                                | Inr issues' \<Rightarrow> Inr (None, issues'))
                     issues of
                Inl p \<Rightarrow> Inl p
              | Inr (Some e, issues') \<Rightarrow> Inr (Some e, issues')
              | Inr (None, issues') \<Rightarrow> rangeBlocks r config None rest issues')
      | None \<Rightarrow>
          (if length (Labels resource) < 2
           then Inl (Panic ''index out of range'')
           else case emitIssue issues NilVal config (DefRange resource) of
                  Inl p \<Rightarrow> Inl p
                | Inr issues' \<Rightarrow> rangeBlocks r config err rest issues'))"

text \<open>The loop over the resource types; the list \<^verbatim>\<open>Resources\<close> is a parameter.\<close>

fun rangeResources ::
    "runner \<Rightarrow> azurermResourceTagsRuleConfig \<Rightarrow> string list \<Rightarrow> issue list \<Rightarrow> check_result"
where
  "rangeResources r config [] issues = Inr (None, issues)"
| "rangeResources r config (resourceType # rest) issues =
     (if stringInSlice resourceType (Exclude config)
      then rangeResources r config rest issues
      else case GetResourceContent r resourceType of
             Inl err \<Rightarrow> Inr (Some err, issues)
           | Inr blocks \<Rightarrow>
               (case rangeBlocks r config None blocks issues of
                  Inl p \<Rightarrow> Inl p
                | Inr (Some e, issues') \<Rightarrow> Inr (Some e, issues')
                | Inr (None, issues') \<Rightarrow> rangeResources r config rest issues'))"

definition Check :: "runner \<Rightarrow> string list \<Rightarrow> issue list \<Rightarrow> check_result" where
  "Check r Resources issues =
     (case DecodeRuleConfig r Name of
        Inl err \<Rightarrow> Inr (Some err, issues)
      | Inr config \<Rightarrow> rangeResources r config Resources issues)"

section \<open>What a tag tree contains\<close>

text \<open>
  The words of the specification, as predicates on a tree: \<open>leafInTree t m\<close> says that
  some entry with a primitive value, in \<open>m\<close> or in an object nested in it at any depth,
  has the key \<open>t\<close>. \<open>primitiveKey\<close> and \<open>nestedLeaf\<close> are its two halves: a primitive
  entry of the map itself, and a leaf inside one of its nested objects.
\<close>

fun primitiveKey :: "string \<Rightarrow> value_map \<Rightarrow> bool" where
  "primitiveKey t [] = False"
| "primitiveKey t ((k, v) # es) = ((k = t \<and> IsPrimitiveType v) \<or> primitiveKey t es)"

fun leafInTree :: "string \<Rightarrow> value_map \<Rightarrow> bool" where
  "leafInTree t [] = False"
| "leafInTree t ((k, PrimitiveVal p) # es) = (k = t \<or> leafInTree t es)"
| "leafInTree t ((k, ObjectVal nested) # es) = (leafInTree t nested \<or> leafInTree t es)"
| "leafInTree t ((k, v) # es) = leafInTree t es"

fun nestedLeaf :: "string \<Rightarrow> value_map \<Rightarrow> bool" where
  "nestedLeaf t [] = False"
| "nestedLeaf t ((k, ObjectVal nested) # es) = (leafInTree t nested \<or> nestedLeaf t es)"
| "nestedLeaf t ((k, v) # es) = nestedLeaf t es"

text \<open>
  What the code looks at instead: \<open>lacksTag t m\<close> says that \<open>m\<close>, or an object nested
  in it at any depth, has an entry with a primitive value and no entry at all with the
  key \<open>t\<close>.
\<close>

fun hasPrimitive :: "value_map \<Rightarrow> bool" where
  "hasPrimitive [] = False"
| "hasPrimitive ((k, v) # es) = (IsPrimitiveType v \<or> hasPrimitive es)"

fun nestedLacks :: "string \<Rightarrow> value_map \<Rightarrow> bool" where
  "nestedLacks t [] = False"
| "nestedLacks t ((k, ObjectVal nested) # es) =
     ((hasPrimitive nested \<and> t \<notin> fst ` set nested) \<or> nestedLacks t nested \<or> nestedLacks t es)"
| "nestedLacks t ((k, v) # es) = nestedLacks t es"

definition lacksTag :: "string \<Rightarrow> value_map \<Rightarrow> bool" where
  "lacksTag t m = ((hasPrimitive m \<and> t \<notin> fst ` set m) \<or> nestedLacks t m)"

text \<open>
  Two trees that differ only in the order of the entries of their groupings: the entries
  of a map may be exchanged, and so may the entries of any object or map nested in it.
\<close>

inductive permutedTree :: "value_map \<Rightarrow> value_map \<Rightarrow> bool" where
  same: "permutedTree m m"
| swap: "permutedTree (a # b # m) (b # a # m)"
| tail: "permutedTree m m' \<Longrightarrow> permutedTree (e # m) (e # m')"
| nestedObject: "permutedTree n n' \<Longrightarrow> permutedTree ((k, ObjectVal n) # m) ((k, ObjectVal n') # m)"
| nestedMap: "permutedTree n n' \<Longrightarrow> permutedTree ((k, MapVal n) # m) ((k, MapVal n') # m)"
| step: "permutedTree a b \<Longrightarrow> permutedTree b c \<Longrightarrow> permutedTree a c"

section \<open>What evaluateMissingTags computes\<close>

lemma set_set_add [simp]: "set (set_add k m) = insert k (set m)"
  by (auto simp: set_add_def)

lemma set_set_delete [simp]: "set (set_delete k m) = set m - {k}"
  by (auto simp: set_delete_def)

lemma distinct_set_add [simp]: "distinct m \<Longrightarrow> distinct (set_add k m)"
  by (simp add: set_add_def)

lemma distinct_set_delete [simp]: "distinct m \<Longrightarrow> distinct (set_delete k m)"
  by (simp add: set_delete_def distinct_removeAll)

lemma leafInTree_split: "leafInTree t es = (primitiveKey t es \<or> nestedLeaf t es)"
  by (induction t es rule: leafInTree.induct) auto

text \<open>
  The names in \<^verbatim>\<open>tagsAlreadyIncluded\<close> after a call: the names it held before and
  the required names that are the key of a leaf of the tree. The second and the third
  statement are the same fact for the two loops, part of the way through.
\<close>

lemma included_closed:
  "x \<in> set (snd (evaluateMissingTags mapValue config s)) \<longleftrightarrow>
     x \<in> set (snd s) \<or> (x \<in> set (Tags config) \<and> leafInTree x mapValue)"
  "set ts \<subseteq> set (Tags config) \<Longrightarrow>
   x \<in> set (snd (rangeTags mapValue config ts s)) \<longleftrightarrow>
     x \<in> set (snd s) \<or> (x \<in> set (Tags config) \<and>
        ((ts \<noteq> [] \<and> nestedLeaf x mapValue) \<or> (x \<in> set ts \<and> primitiveKey x mapValue)))"
  "t \<in> set (Tags config) \<Longrightarrow>
   x \<in> set (snd (rangeMapValue mapValue config t es s)) \<longleftrightarrow>
     x \<in> set (snd s) \<or> (x \<in> set (Tags config) \<and>
        (nestedLeaf x es \<or> (x = t \<and> primitiveKey t es)))"
proof (induction mapValue config s and mapValue config ts s and mapValue config t es s
       rule: evaluateMissingTags_rangeTags_rangeMapValue.induct)
  case (1 mapValue config s)
  then show ?case by (auto simp: leafInTree_split)
next
  case (2 mapValue config s)
  then show ?case by simp
next
  case (3 mapValue config requiredTag rest s)
  then show ?case by auto
next
  case (4 mapValue config requiredTag s)
  then show ?case by simp
next
  case (5 mapValue config requiredTag tagName attributeValue rest s)
  then show ?case by (cases attributeValue) auto
qed

text \<open>
  The names in \<^verbatim>\<open>missing\<close> after a call. A required name that is the key of a leaf
  is not among them. Any other name is among them when it was before, or when it is
  required, was not in \<^verbatim>\<open>tagsAlreadyIncluded\<close> before, and some grouping of the tree
  with a primitive entry has no entry with that key.
\<close>

lemma missing_closed:
  "x \<in> set (fst (evaluateMissingTags mapValue config s)) \<longleftrightarrow>
     \<not> (x \<in> set (Tags config) \<and> leafInTree x mapValue) \<and>
     (x \<in> set (fst s) \<or>
      (x \<notin> set (snd s) \<and> x \<in> set (Tags config) \<and> lacksTag x mapValue))"
  "set ts \<subseteq> set (Tags config) \<Longrightarrow>
   x \<in> set (fst (rangeTags mapValue config ts s)) \<longleftrightarrow>
     \<not> (x \<in> set (Tags config) \<and>
        ((ts \<noteq> [] \<and> nestedLeaf x mapValue) \<or> (x \<in> set ts \<and> primitiveKey x mapValue))) \<and>
     (x \<in> set (fst s) \<or>
      (x \<notin> set (snd s) \<and> x \<in> set (Tags config) \<and>
        ((ts \<noteq> [] \<and> nestedLacks x mapValue) \<or>
         (x \<in> set ts \<and> hasPrimitive mapValue \<and> x \<notin> fst ` set mapValue))))"
  "t \<in> set (Tags config) \<Longrightarrow>
   x \<in> set (fst (rangeMapValue mapValue config t es s)) \<longleftrightarrow>
     \<not> (x \<in> set (Tags config) \<and> (nestedLeaf x es \<or> (x = t \<and> primitiveKey t es))) \<and>
     (x \<in> set (fst s) \<or>
      (x \<notin> set (snd s) \<and> x \<in> set (Tags config) \<and>
        (nestedLacks x es \<or>
         (x = t \<and> hasPrimitive es \<and> t \<notin> fst ` set mapValue))))"
proof (induction mapValue config s and mapValue config ts s and mapValue config t es s
       rule: evaluateMissingTags_rangeTags_rangeMapValue.induct)
  case (1 mapValue config s)
  then show ?case by (auto simp: leafInTree_split lacksTag_def)
next
  case (2 mapValue config s)
  then show ?case by simp
next
  case (3 mapValue config requiredTag rest s)
  then show ?case by (auto simp: included_closed)
next
  case (4 mapValue config requiredTag s)
  then show ?case by simp
next
  case (5 mapValue config requiredTag tagName attributeValue rest s)
  show ?case
  proof (cases attributeValue)
    case (ObjectVal nested)
    with 5 show ?thesis
      by (simp add: included_closed lacksTag_def leafInTree_split
               del: evaluateMissingTags.simps) blast
  next
    case (PrimitiveVal p)
    with 5 show ?thesis
      by (simp add: included_closed del: evaluateMissingTags.simps) blast
  qed (use 5 in simp_all)
qed

text \<open>\<^verbatim>\<open>missing\<close> stays a list without repetition.\<close>

lemma distinct_missing:
  "distinct (fst s) \<Longrightarrow> distinct (fst (evaluateMissingTags mapValue config s))"
  "distinct (fst s) \<Longrightarrow> distinct (fst (rangeTags mapValue config ts s))"
  "distinct (fst s) \<Longrightarrow> distinct (fst (rangeMapValue mapValue config t es s))"
proof (induction mapValue config s and mapValue config ts s and mapValue config t es s
       rule: evaluateMissingTags_rangeTags_rangeMapValue.induct)
  case (5 mapValue config requiredTag tagName attributeValue rest s)
  then show ?case
    by (cases attributeValue) (simp_all del: evaluateMissingTags.simps)
qed simp_all

section \<open>The missing tags are required tags\<close>

text \<open>
  Claim C10. Whatever keys the tree has, every name \<^verbatim>\<open>evaluateMissingTags\<close> returns in
  \<^verbatim>\<open>missing\<close> was in \<^verbatim>\<open>missing\<close> at the call or is one of the configured tags;
  \<^verbatim>\<open>emitIssue\<close> calls it with an empty \<^verbatim>\<open>missing\<close>, so there the result holds
  configured tags only.
\<close>

theorem missing_subset_required:
  "set (fst (evaluateMissingTags mapValue config (missing, tagsAlreadyIncluded)))
     \<subseteq> set missing \<union> set (Tags config)"
proof
  fix x
  assume "x \<in> set (fst (evaluateMissingTags mapValue config (missing, tagsAlreadyIncluded)))"
  then show "x \<in> set missing \<union> set (Tags config)"
    unfolding missing_closed(1) by auto
qed

theorem missing_subset_required_witness:
  "set (fst (evaluateMissingTags
       [(''foo'', PrimitiveVal (StringVal ''bar'')), (''Name'', PrimitiveVal (StringVal ''x''))]
       \<lparr>Tags = [''Foo'', ''Bar''], Exclude = []\<rparr> ([], [])))
     \<subseteq> {''Foo'', ''Bar''}"
  using missing_subset_required
    [of "[(''foo'', PrimitiveVal (StringVal ''bar'')), (''Name'', PrimitiveVal (StringVal ''x''))]"
        "\<lparr>Tags = [''Foo'', ''Bar''], Exclude = []\<rparr>" "[]" "[]"]
  by simp

section \<open>The order of the entries\<close>

lemma leafInTree_Cons:
  "leafInTree t (e # es) =
     ((case snd e of PrimitiveVal p \<Rightarrow> fst e = t | ObjectVal n \<Rightarrow> leafInTree t n | _ \<Rightarrow> False)
      \<or> leafInTree t es)"
  by (cases e; cases "snd e") auto

lemma nestedLacks_Cons:
  "nestedLacks t (e # es) =
     ((case snd e of ObjectVal n \<Rightarrow> lacksTag t n | _ \<Rightarrow> False) \<or> nestedLacks t es)"
  by (cases e; cases "snd e") (auto simp: lacksTag_def)

lemma hasPrimitive_Cons: "hasPrimitive (e # es) = (IsPrimitiveType (snd e) \<or> hasPrimitive es)"
  by (cases e) simp

text \<open>
  Everything the closed form reads from a tree is the same for a tree whose entries
  are in another order.
\<close>

lemma permutedTree_invariant:
  assumes "permutedTree m m'"
  shows "leafInTree t m = leafInTree t m' \<and> hasPrimitive m = hasPrimitive m' \<and>
         fst ` set m = fst ` set m' \<and> nestedLacks t m = nestedLacks t m'"
  using assms
proof (induction rule: permutedTree.induct)
  case (same m)
  show ?case by simp
next
  case (swap a b m)
  show ?case
    unfolding leafInTree_Cons nestedLacks_Cons hasPrimitive_Cons by auto
next
  case (tail m m' e)
  then show ?case
    unfolding leafInTree_Cons nestedLacks_Cons hasPrimitive_Cons by auto
next
  case (nestedObject n n' k m)
  then show ?case by (simp add: lacksTag_def)
next
  case (nestedMap n n' k m)
  then show ?case by simp
next
  case (step a b c)
  then show ?case by simp
qed

lemma permutedTree_lacksTag: "permutedTree m m' \<Longrightarrow> lacksTag t m = lacksTag t m'"
  using permutedTree_invariant [of m m' t] by (simp add: lacksTag_def)

text \<open>
  Go may visit the entries of one map in a different order each time a loop runs over
  it. One pass of the inner loop leaves the same two sets whatever order it takes, and
  whatever order the two sets were built in, since the closed form reads the entries as
  a set.
\<close>

lemma primitiveKey_set: "primitiveKey t es \<longleftrightarrow> (\<exists>p. (t, PrimitiveVal p) \<in> set es)"
  by (induction t es rule: primitiveKey.induct) (auto elim: IsPrimitiveType.elims)

lemma hasPrimitive_set: "hasPrimitive es \<longleftrightarrow> (\<exists>k p. (k, PrimitiveVal p) \<in> set es)"
  by (induction es rule: hasPrimitive.induct) (auto elim: IsPrimitiveType.elims)

lemma nestedLeaf_set:
  "nestedLeaf t es \<longleftrightarrow> (\<exists>k n. (k, ObjectVal n) \<in> set es \<and> leafInTree t n)"
  by (induction t es rule: nestedLeaf.induct) auto

lemma nestedLacks_set:
  "nestedLacks t es \<longleftrightarrow> (\<exists>k n. (k, ObjectVal n) \<in> set es \<and> lacksTag t n)"
  by (induction t es rule: nestedLacks.induct) (auto simp: lacksTag_def)

lemma rangeMapValue_any_order:
  assumes "set es = set es'" and "set (fst s) = set (fst s')" and "set (snd s) = set (snd s')"
    and "t \<in> set (Tags config)"
  shows "set (fst (rangeMapValue mapValue config t es s)) =
           set (fst (rangeMapValue mapValue config t es' s')) \<and>
         set (snd (rangeMapValue mapValue config t es s)) =
           set (snd (rangeMapValue mapValue config t es' s'))"
proof -
  have same: "primitiveKey x es = primitiveKey x es'" "nestedLeaf x es = nestedLeaf x es'"
    "hasPrimitive es = hasPrimitive es'" "nestedLacks x es = nestedLacks x es'" for x
    using assms(1) by (simp_all add: primitiveKey_set hasPrimitive_set nestedLeaf_set nestedLacks_set)
  show ?thesis
  proof (intro conjI set_eqI)
    fix x
    show "x \<in> set (fst (rangeMapValue mapValue config t es s)) \<longleftrightarrow>
          x \<in> set (fst (rangeMapValue mapValue config t es' s'))"
      unfolding missing_closed(3) [OF assms(4)] same assms(2,3) ..
  next
    fix x
    show "x \<in> set (snd (rangeMapValue mapValue config t es s)) \<longleftrightarrow>
          x \<in> set (snd (rangeMapValue mapValue config t es' s'))"
      unfolding included_closed(3) [OF assms(4)] same assms(3) ..
  qed
qed

text \<open>
  Claim C7. For every list of required tags and every tag tree, putting the entries of
  any grouping of the tree in another order, with the shape of the tree and every
  key and value kept, leaves the set of missing tags as it was.
\<close>

theorem missing_order_independent:
  assumes "permutedTree mapValue mapValue'"
  shows "set (fst (evaluateMissingTags mapValue config s)) =
         set (fst (evaluateMissingTags mapValue' config s))"
proof (rule set_eqI)
  fix x
  from assms have "leafInTree x mapValue = leafInTree x mapValue'"
    and "lacksTag x mapValue = lacksTag x mapValue'"
    using permutedTree_invariant [of mapValue mapValue' x] permutedTree_lacksTag by auto
  then show "x \<in> set (fst (evaluateMissingTags mapValue config s)) \<longleftrightarrow>
             x \<in> set (fst (evaluateMissingTags mapValue' config s))"
    unfolding missing_closed(1) by simp
qed

text \<open>Claim C7 at a tree with a leaf and a nested grouping, the two exchanged.\<close>

theorem missing_order_independent_witness:
  "set (fst (evaluateMissingTags
       [(''Foo'', PrimitiveVal (StringVal ''a'')),
        (''nested'', ObjectVal [(''x'', PrimitiveVal (BoolVal True))])]
       \<lparr>Tags = [''Foo'', ''Bar''], Exclude = []\<rparr> ([], []))) =
   set (fst (evaluateMissingTags
       [(''nested'', ObjectVal [(''x'', PrimitiveVal (BoolVal True))]),
        (''Foo'', PrimitiveVal (StringVal ''a''))]
       \<lparr>Tags = [''Foo'', ''Bar''], Exclude = []\<rparr> ([], [])))"
  by (rule missing_order_independent [OF permutedTree.swap])

section \<open>The scenario of the tests\<close>

lemma distinct_singleton: "distinct xs \<Longrightarrow> set xs = {a} \<Longrightarrow> xs = [a]"
  by (cases xs) (auto simp: insert_eq_iff[symmetric] dest: subset_singletonD)

text \<open>
  Claim C6. With the required tags Application, CostCenter, Environment and ManagedBy and
  the tree \<^verbatim>\<open>{common_tags = {more_tags = {Application}, Environment, ManagedBy}}\<close>,
  in whatever order the entries are visited, the missing tags are CostCenter and nothing
  else.
\<close>

theorem scenario_only_CostCenter:
  assumes "permutedTree
      [(''common_tags'', ObjectVal
          [(''more_tags'', ObjectVal [(''Application'', PrimitiveVal (StringVal ''PAL''))]),
           (''Environment'', PrimitiveVal (StringVal ''NonProd'')),
           (''ManagedBy'', PrimitiveVal (StringVal ''ws-nonprod-pal''))])] m"
  shows "fst (evaluateMissingTags m
            \<lparr>Tags = [''Application'', ''CostCenter'', ''Environment'', ''ManagedBy''],
             Exclude = exclude\<rparr> ([], [])) = [''CostCenter'']"
proof -
  let ?tree = "[(''common_tags'', ObjectVal
          [(''more_tags'', ObjectVal [(''Application'', PrimitiveVal (StringVal ''PAL''))]),
           (''Environment'', PrimitiveVal (StringVal ''NonProd'')),
           (''ManagedBy'', PrimitiveVal (StringVal ''ws-nonprod-pal''))])]"
  let ?config = "\<lparr>Tags = [''Application'', ''CostCenter'', ''Environment'', ''ManagedBy''],
             Exclude = exclude\<rparr>"
  have "set (fst (evaluateMissingTags m ?config ([], []))) = {''CostCenter''}"
  proof (rule set_eqI)
    fix x
    have leaf: "leafInTree x m = leafInTree x ?tree"
      using permutedTree_invariant [OF assms, of x] by simp
    have lacks: "lacksTag x m = lacksTag x ?tree"
      using permutedTree_lacksTag [OF assms, of x] by simp
    show "x \<in> set (fst (evaluateMissingTags m ?config ([], []))) \<longleftrightarrow> x \<in> {''CostCenter''}"
      unfolding missing_closed(1) leaf lacks by (auto simp: lacksTag_def)
  qed
  moreover have "distinct (fst (evaluateMissingTags m ?config ([], [])))"
    by (rule distinct_missing(1)) simp
  ultimately show ?thesis by (rule distinct_singleton[rotated])
qed

text \<open>Claim C6 at the tree in the order the test file writes it.\<close>

theorem scenario_only_CostCenter_witness:
  "fst (evaluateMissingTags
      [(''common_tags'', ObjectVal
          [(''more_tags'', ObjectVal [(''Application'', PrimitiveVal (StringVal ''PAL''))]),
           (''Environment'', PrimitiveVal (StringVal ''NonProd'')),
           (''ManagedBy'', PrimitiveVal (StringVal ''ws-nonprod-pal''))])]
      \<lparr>Tags = [''Application'', ''CostCenter'', ''Environment'', ''ManagedBy''], Exclude = []\<rparr>
      ([], [])) = [''CostCenter'']"
  by (rule scenario_only_CostCenter [OF permutedTree.same])

section \<open>A resource without a tags attribute\<close>

text \<open>
  Claim C8. For a resource that declares no tags attribute, whatever the required tags
  are, the loop emits one issue that names every configured tag, in the configured
  order, and anchors it at the range of the declaration of the resource.
\<close>

theorem absent_tags_report_all:
  assumes "Attributes resource tagsAttributeName = None" and "2 \<le> length (Labels resource)"
  shows "rangeBlocks r config err [resource] issues =
           Inr (None, issues @
             [\<lparr>Rule = Name,
               Message = ''The resource is missing the following tags: ''
                          @ Join (Tags config) '', '' @ ''.'',
               IssueRange = DefRange resource\<rparr>])"
  using assms by (simp add: emitIssue_def missingTagsMessage_def)

text \<open>Claim C8 at the resource and the configuration of the first test case.\<close>

theorem absent_tags_report_all_witness:
  "rangeBlocks
     \<lparr>DecodeRuleConfig = (\<lambda>n. Inr \<lparr>Tags = [''Foo'', ''Bar''], Exclude = []\<rparr>),
      GetResourceContent = (\<lambda>t. Inr []),
      EvaluateExpr = (\<lambda>e v. (None, v)),
      Skipped = (\<lambda>e. False)\<rparr>
     \<lparr>Tags = [''Foo'', ''Bar''], Exclude = []\<rparr> None
     [\<lparr>Labels = [''azurerm_resource_group'', ''az_rg_1''], Attributes = Map.empty,
       DefRange = \<lparr>Filename = ''module.tf'',
                   Start = \<lparr>Line = 2, Column = 3, Byte = 0\<rparr>,
                   End = \<lparr>Line = 2, Column = 46, Byte = 0\<rparr>\<rparr>\<rparr>] [] =
   Inr (None,
     [\<lparr>Rule = ''azurerm_resource_missing_tags'',
       Message = ''The resource is missing the following tags: Foo, Bar.'',
       IssueRange = \<lparr>Filename = ''module.tf'',
                     Start = \<lparr>Line = 2, Column = 3, Byte = 0\<rparr>,
                     End = \<lparr>Line = 2, Column = 46, Byte = 0\<rparr>\<rparr>\<rparr>])"
  using absent_tags_report_all
    [of "\<lparr>Labels = [''azurerm_resource_group'', ''az_rg_1''], Attributes = Map.empty,
       DefRange = \<lparr>Filename = ''module.tf'',
                   Start = \<lparr>Line = 2, Column = 3, Byte = 0\<rparr>,
                   End = \<lparr>Line = 2, Column = 46, Byte = 0\<rparr>\<rparr>\<rparr>"
        "\<lparr>DecodeRuleConfig = (\<lambda>n. Inr \<lparr>Tags = [''Foo'', ''Bar''], Exclude = []\<rparr>),
      GetResourceContent = (\<lambda>t. Inr []),
      EvaluateExpr = (\<lambda>e v. (None, v)),
      Skipped = (\<lambda>e. False)\<rparr>"
        "\<lparr>Tags = [''Foo'', ''Bar''], Exclude = []\<rparr>" None "[]"]
  by (simp add: Name_def)

section \<open>One issue for a resource\<close>



text \<open>
  The premise of a required tag is needed for a resource without tags only: the null
  branch has no check of the length, the other branch has, so with an empty list of
  required tags a resource without tags gets an issue that names nothing.
\<close>

lemma emitIssue_null_no_tags:
  "emitIssue issues NilVal \<lparr>Tags = [], Exclude = exclude\<rparr> location =
     Inr (issues @
       [\<lparr>Rule = ''azurerm_resource_missing_tags'',
         Message = ''The resource is missing the following tags: .'',
         IssueRange = location\<rparr>])"
  by (simp add: emitIssue_def missingTagsMessage_def Name_def)

section \<open>Where the code leaves the specification\<close>

lemma rangeTags_empty_map: "rangeTags [] config ts s = s"
  by (induction ts) simp_all

text \<open>
  Claim C3 says that an empty grouping makes every required tag missing, and that an
  issue naming them all is reported. The loops of \<^verbatim>\<open>evaluateMissingTags\<close> write to
  \<^verbatim>\<open>missing\<close> only while they visit an entry, so for an empty grouping nothing is
  missing and no issue is emitted, whatever the configuration requires.
\<close>

theorem empty_grouping_no_issue:
  "fst (evaluateMissingTags [] config ([], [])) = [] \<and>
   emitIssue issues (ObjectVal []) config location = Inr issues"
  by (simp add: emitIssue_def rangeTags_empty_map)

text \<open>
  Claim C1 says that a required tag is missing exactly when no leaf of the tree has it as
  its key. In the tree \<^verbatim>\<open>{common_tags = {}}\<close> no leaf has the key Foo, and the
  required tag Foo is not reported missing.
\<close>

theorem no_leaf_not_missing:
  "\<not> leafInTree ''Foo'' [(''common_tags'', ObjectVal [])] \<and>
   ''Foo'' \<notin> set (fst (evaluateMissingTags [(''common_tags'', ObjectVal [])]
                        \<lparr>Tags = [''Foo''], Exclude = []\<rparr> ([], [])))"
  by simp

text \<open>
  Claim C5 says that a required name that is the key of a grouping only, and of no leaf,
  is reported missing. In the tree \<^verbatim>\<open>{Foo = {}, Name = "rg"}\<close> the key Foo of the
  nested grouping stops the entry Name from recording Foo as missing, and nothing is
  reported.
\<close>

theorem grouping_key_satisfies:
  "\<not> leafInTree ''Foo''
       [(''Foo'', ObjectVal []), (''Name'', PrimitiveVal (StringVal ''rg''))] \<and>
   fst (evaluateMissingTags
       [(''Foo'', ObjectVal []), (''Name'', PrimitiveVal (StringVal ''rg''))]
       \<lparr>Tags = [''Foo''], Exclude = []\<rparr> ([], [])) = []"
  by simp

text \<open>
  Any value that is not null and that \<^verbatim>\<open>AsValueMap\<close> turns into the empty map
  yields no issue.
\<close>

lemma emitIssue_empty_map:
  "\<not> IsNull tags \<Longrightarrow> AsValueMap tags = Inr [] \<Longrightarrow>
     emitIssue issues tags config location = Inr issues"
  by (simp add: emitIssue_def rangeTags_empty_map)

text \<open>
  Claim C4 says that a primitive value in the place of the tags is taken for an empty
  grouping, so that every required tag is reported, without an error or a crash.
  \<^verbatim>\<open>emitIssue\<close> hands the value to \<^verbatim>\<open>AsValueMap\<close> unchecked, which panics.
\<close>

theorem primitive_tags_panic:
  "emitIssue issues (PrimitiveVal p) config location = Inl (Panic ''value is not a collection'')"
  by (simp add: emitIssue_def)

text \<open>
  The loop over the blocks, entered as \<^verbatim>\<open>Check\<close> enters it, never returns an error:
  what \<^verbatim>\<open>EvaluateExpr\<close> returns does not reach \<^verbatim>\<open>err\<close>.
\<close>

lemma rangeBlocks_returns_no_error:
  "rangeBlocks r config None blocks issues \<noteq> Inr (Some e, issues')"
proof (induction blocks arbitrary: issues)
  case Nil
  show ?case by simp
next
  case (Cons resource rest)
  then show ?case
    by (auto simp: EnsureNoError_def Let_def split: option.splits sum.splits prod.splits)
qed

text \<open>
  Claim C2 says that a tags attribute that cannot be evaluated makes the check fail with
  the evaluation error, and that no issue is computed from the failed evaluation. With a
  runner whose \<^verbatim>\<open>EvaluateExpr\<close> fails and leaves the value as it was, \<^verbatim>\<open>Check\<close>
  returns no error and reports an issue computed from that value.
\<close>

theorem evaluation_error_dropped:
  "Check
     \<lparr>DecodeRuleConfig = (\<lambda>name. Inr \<lparr>Tags = [''Foo''], Exclude = []\<rparr>),
      GetResourceContent = (\<lambda>resourceType. Inr
        [\<lparr>Labels = [''azurerm_resource_group'', ''rgp''],
          Attributes = [''tags'' \<mapsto>
            \<lparr>Expr = \<lparr>ExprValue = ObjectVal [(''foo'', PrimitiveVal (StringVal ''bar''))],
                     ExprRange = \<lparr>Filename = ''module.tf'',
                                   Start = \<lparr>Line = 5, Column = 12, Byte = 0\<rparr>,
                                   End = \<lparr>Line = 7, Column = 6, Byte = 0\<rparr>\<rparr>\<rparr>\<rparr>],
          DefRange = \<lparr>Filename = ''module.tf'',
                      Start = \<lparr>Line = 2, Column = 3, Byte = 0\<rparr>,
                      End = \<lparr>Line = 2, Column = 46, Byte = 0\<rparr>\<rparr>\<rparr>]),
      EvaluateExpr = (\<lambda>expr value. (Some (Error ''evaluation failed''), value)),
      Skipped = (\<lambda>e. False)\<rparr>
     [''azurerm_resource_group''] [] =
   Inr (None,
     [\<lparr>Rule = ''azurerm_resource_missing_tags'',
       Message = ''The resource is missing the following tags: Foo.'',
       IssueRange = \<lparr>Filename = ''module.tf'',
                     Start = \<lparr>Line = 5, Column = 12, Byte = 0\<rparr>,
                     End = \<lparr>Line = 7, Column = 6, Byte = 0\<rparr>\<rparr>\<rparr>])"
  by (simp add: Check_def EnsureNoError_def emitIssue_def missingTagsMessage_def Name_def
        tagsAttributeName_def set_add_def)

end
